theory Spec2Isabelle
  imports Complex_Main "HOL-Library.AList" "HOL-Library.Multiset" "HOL-Library.Word"
begin

section \<open>Vault APY oracle: reconciliation, validation, risk scoring and resolution\<close>

text \<open>
  A shallow embedding of the decision logic of the vault APY oracle:
  \<^item> \<^verbatim>\<open>src/chainlink/external-adapter.js\<close> (class VaultAPYExternalAdapter): reconciliation of
    the two provider streams, validation score, best-vault and top-vaults requests;
  \<^item> \<^verbatim>\<open>src/utils/risk-scorer.js\<close> (class RiskScorer): risk score, category and filter;
  \<^item> \<^verbatim>\<open>src/utils/cache-manager.js\<close> (class CacheManager): request deduplication;
  \<^item> \<^verbatim>\<open>src/api/server.js\<close> (class VaultAPYAPIServer): the best and top routes;
  \<^item> \<^verbatim>\<open>src/collectors/onchain/enhanced-vault-collector.js\<close> and the guards of its base
    class in \<^verbatim>\<open>vault-onchain-collector.js\<close>: yield estimation and comprehensive analysis;
  \<^item> \<^verbatim>\<open>contracts/deploy.js\<close> (contract VaultAPYConsumer): the check of requestProtocolList;
  \<^item> \<^verbatim>\<open>src/collectors/api/defillama-collector.js\<close> (class LendingFocusedExternalAdapter):
    the lending-only reconciliation.

  JavaScript numbers are modelled as real numbers: the values compared by the code are
  taken exactly, without the rounding of IEEE doubles and without NaN. Strings are lists of
  8-bit characters, and the case conversions act on the ASCII letters. An object literal
  that the code uses as a lookup table is the finite map of its own keys. What a function
  obtains by I/O (provider streams, the state of a cache, on-chain reads, the clock, a
  random number) is an argument of its model; the I/O a function performs is returned
  as a list of events where a claim is about it.
\<close>

subsection \<open>Data model\<close>

text \<open>
  A vault record is a JavaScript object; the stages of the pipeline add fields to it
  (\<^verbatim>\<open>{...vault, risk_score: ...}\<close>), so the fields a stage may add are optional here.
  \<^verbatim>\<open>risk_score\<close> is the provider's score before risk filtering and the computed score after it.
\<close>

datatype risk_category = Low | MediumLow | Medium | MediumHigh | High

record breakdown =
  bd_protocol :: real
  bd_tvl :: real
  bd_apy :: real
  bd_chain :: real
  bd_source :: real

record vault =
  vault_address :: string
  chain :: string
  protocol :: string
  name :: string
  asset_symbol :: string
  apy :: real
  tvl_usd :: real
  risk_score :: "real option"
  data_source :: string
  validation_score :: "real option"
  source_priority :: "string option"
  risk_category :: "risk_category option"
  risk_breakdown :: "breakdown option"
  risk_adjusted_apy :: "real option"

subsection \<open>Strings and truthiness\<close>

definition toLowerChar :: "char \<Rightarrow> char" where
  "toLowerChar c =
     (if 65 \<le> (of_char c :: nat) \<and> (of_char c :: nat) \<le> 90
      then char_of ((of_char c :: nat) + 32) else c)"

definition toLowerCase :: "string \<Rightarrow> string" where
  "toLowerCase s = map toLowerChar s"

text \<open>
  An optional number is \<^verbatim>\<open>null\<close> or \<^verbatim>\<open>undefined\<close> when absent. \<open>truthy\<close> is its truth value in
  a condition, \<open>orDefault x d\<close> is \<^verbatim>\<open>x || d\<close> (both take 0 for false), and \<open>num\<close> reads a
  field that the preceding stage has set.
\<close>

definition truthy :: "real option \<Rightarrow> bool" where
  "truthy x = (case x of None \<Rightarrow> False | Some r \<Rightarrow> r \<noteq> 0)"

definition orDefault :: "real option \<Rightarrow> real \<Rightarrow> real" where
  "orDefault x d = (case x of None \<Rightarrow> d | Some r \<Rightarrow> if r = 0 then d else r)"

definition num :: "real option \<Rightarrow> real" where
  "num x = (case x of None \<Rightarrow> 0 | Some r \<Rightarrow> r)"

subsection \<open>Reconciler (collectFromAllSources, collectFromLendingSources)\<close>

text \<open>
  \<^verbatim>\<open>vaultMap\<close> is a JavaScript Map from the lower-cased key to the record. It is an association
  list in insertion order: \<^verbatim>\<open>set\<close> on a present key replaces the value in place, on an absent
  key appends (\<open>AList.update\<close>), and \<^verbatim>\<open>Array.from(vaultMap.values())\<close> lists the values in
  that order. The arguments are the arrays the two collectors returned.
\<close>

definition vaultKey :: "vault \<Rightarrow> string" where
  "vaultKey vault = toLowerCase (vault_address vault @ ''-'' @ chain vault)"

type_synonym vaultMap = "(string \<times> vault) list"

definition addDefiLlama :: "vault \<Rightarrow> vaultMap \<Rightarrow> vaultMap" where
  "addDefiLlama vault vaultMap =
     (let key = vaultKey vault
      in AList.update key (vault\<lparr>source_priority := Some ''defillama''\<rparr>) vaultMap)"

definition overrides :: "vault \<Rightarrow> vault \<Rightarrow> bool" where
  "overrides vault existing =
     (tvl_usd vault > tvl_usd existing
      \<or> (truthy (risk_score vault) \<and> \<not> truthy (risk_score existing)))"

definition addVaultsFyi :: "vault \<Rightarrow> vaultMap \<Rightarrow> vaultMap" where
  "addVaultsFyi vault vaultMap =
     (let key = vaultKey vault
      in case map_of vaultMap key of
           None \<Rightarrow> AList.update key (vault\<lparr>source_priority := Some ''vaultsfyi''\<rparr>) vaultMap
         | Some existing \<Rightarrow>
             if overrides vault existing
             then AList.update key (vault\<lparr>source_priority := Some ''vaultsfyi''\<rparr>) vaultMap
             else vaultMap)"

definition collectFromAllSources :: "vault list \<Rightarrow> vault list \<Rightarrow> vault list" where
  "collectFromAllSources defiLlamaVaults vaultsFyiVaults =
     (let vaultMap = [];
          vaultMap = fold addDefiLlama defiLlamaVaults vaultMap;
          vaultMap = fold addVaultsFyi vaultsFyiVaults vaultMap
      in map snd vaultMap)"

text \<open>
  The lending-only variant of \<^verbatim>\<open>LendingFocusedExternalAdapter\<close> overrides on TVL alone.
\<close>

definition addVaultsFyiLending :: "vault \<Rightarrow> vaultMap \<Rightarrow> vaultMap" where
  "addVaultsFyiLending vault vaultMap =
     (let key = vaultKey vault
      in case map_of vaultMap key of
           None \<Rightarrow> AList.update key (vault\<lparr>source_priority := Some ''vaultsfyi''\<rparr>) vaultMap
         | Some existing \<Rightarrow>
             if tvl_usd vault > tvl_usd existing
             then AList.update key (vault\<lparr>source_priority := Some ''vaultsfyi''\<rparr>) vaultMap
             else vaultMap)"

definition collectFromLendingSources :: "vault list \<Rightarrow> vault list \<Rightarrow> vault list" where
  "collectFromLendingSources defiLlamaVaults vaultsFyiVaults =
     (let vaultMap = [];
          vaultMap = fold addDefiLlama defiLlamaVaults vaultMap;
          vaultMap = fold addVaultsFyiLending vaultsFyiVaults vaultMap
      in map snd vaultMap)"

text \<open>
  The identity of the specification: the lower-cased address and the lower-cased chain.
  \<open>untag\<close> forgets which slot a record was taken from. \<open>keyed\<close> is the invariant of
  \<^verbatim>\<open>vaultMap\<close>: keys are distinct and every record is stored under its own key.
\<close>

definition identity :: "vault \<Rightarrow> string \<times> string" where
  "identity v = (toLowerCase (vault_address v), toLowerCase (chain v))"

definition untag :: "vault \<Rightarrow> vault" where
  "untag v = v\<lparr>source_priority := None\<rparr>"

definition keyed :: "vaultMap \<Rightarrow> bool" where
  "keyed m = (distinct (map fst m) \<and> list_all (\<lambda>(k, e). vaultKey e = k) m)"

subsection \<open>Risk scorer\<close>

text \<open>
  \<^verbatim>\<open>protocol.toLowerCase().replace(/\s+/g, '-')\<close>: every run of white space becomes one dash.
  The score tables are object literals looked up by key; a missing key reads as
  \<^verbatim>\<open>undefined\<close>. (Keys that JavaScript finds on the prototype of every object, such as
  \<^verbatim>\<open>constructor\<close>, are taken as missing.)
\<close>

definition isWhitespace :: "char \<Rightarrow> bool" where
  "isWhitespace c = (c \<in> set [CHR '' '', CHR 0x09, CHR 0x0A, CHR 0x0B, CHR 0x0C, CHR 0x0D])"

function replaceWhitespace :: "string \<Rightarrow> string" where
  "replaceWhitespace [] = []"
| "replaceWhitespace (c # cs) =
     (if isWhitespace c then CHR ''-'' # replaceWhitespace (dropWhile isWhitespace cs)
      else c # replaceWhitespace cs)"
  by pat_completeness auto
termination
  by (relation "measure length") (auto simp: length_dropWhile_le less_Suc_eq_le)

definition protocolRiskScores :: "string \<Rightarrow> real option" where
  "protocolRiskScores = map_of
     [(''aave-v3'', 95), (''aave-v2'', 92), (''compound-v3'', 94), (''compound-v2'', 90),
      (''yearn'', 85), (''convex'', 83), (''curve'', 87), (''lido'', 88), (''maker'', 89),
      (''uniswap-v3'', 75), (''sushiswap'', 72), (''balancer'', 78), (''morpho-blue'', 82),
      (''fluid-lending'', 75),
      (''aerodrome-slipstream'', 45), (''pancakeswap'', 65), (''trader-joe'', 68),
      (''default'', 50)]"

definition chainRiskMultipliers :: "string \<Rightarrow> real option" where
  "chainRiskMultipliers = map_of
     [(''ethereum'', 1.0), (''base'', 0.95), (''arbitrum'', 0.9), (''polygon'', 0.85),
      (''optimism'', 0.9), (''avalanche'', 0.8), (''bsc'', 0.7)]"

definition getProtocolScore :: "string \<Rightarrow> real" where
  "getProtocolScore protocol' =
     (if protocol' = [] then 30
      else let protocolKey = replaceWhitespace (toLowerCase protocol')
           in orDefault (protocolRiskScores protocolKey) (the (protocolRiskScores ''default'')))"

definition getTVLScore :: "real \<Rightarrow> real" where
  "getTVLScore tvlUsd =
     (if tvlUsd = 0 \<or> tvlUsd \<le> 0 then 20
      else if tvlUsd \<ge> 100000000 then 95
      else if tvlUsd \<ge> 50000000 then 90
      else if tvlUsd \<ge> 10000000 then 85
      else if tvlUsd \<ge> 5000000 then 75
      else if tvlUsd \<ge> 1000000 then 65
      else if tvlUsd \<ge> 500000 then 55
      else if tvlUsd \<ge> 100000 then 45
      else 30)"

definition getAPYScore :: "real \<Rightarrow> real" where
  "getAPYScore apy' =
     (if apy' = 0 \<or> apy' \<le> 0 then 20
      else if apy' \<le> 5 then 95
      else if apy' \<le> 10 then 90
      else if apy' \<le> 20 then 80
      else if apy' \<le> 50 then 60
      else if apy' \<le> 100 then 40
      else if apy' \<le> 200 then 25
      else 10)"

definition getChainScore :: "string \<Rightarrow> real" where
  "getChainScore chain' =
     (if chain' = [] then 50
      else let multiplier = orDefault (chainRiskMultipliers (toLowerCase chain')) 0.7
           in multiplier * 100)"

definition sourceScores :: "string \<Rightarrow> real option" where
  "sourceScores = map_of
     [(''vaultsfyi'', 90), (''defillama'', 85), (''onchain'', 95), (''default'', 70)]"

definition getSourceScore :: "string \<Rightarrow> real" where
  "getSourceScore source = orDefault (sourceScores source) (the (sourceScores ''default''))"

text \<open>\<^verbatim>\<open>Math.round\<close> rounds half up.\<close>

definition jsRound :: "real \<Rightarrow> real" where
  "jsRound x = real_of_int \<lfloor>x + 1 / 2\<rfloor>"

record risk_analysis =
  riskScore :: real
  breakdown :: "breakdown option"
  riskCategory :: risk_category

text \<open>
  calculateRiskScore is memoised under the key
  \<^verbatim>\<open>`${vault_address}-${protocol}-${tvl_usd}`\<close>, kept here as its three components.
  \<open>cached\<close> is what \<^verbatim>\<open>cacheManager.getRiskScore\<close> answers when the call is made (\<open>None\<close> for
  a miss); the write of the fresh result into the cache does not change the value returned.
  With string-valued fields no statement of the \<^verbatim>\<open>try\<close> block throws, so its \<^verbatim>\<open>catch\<close>
  branch (score 50, category medium) is not reached.
\<close>

type_synonym risk_cache = "string \<times> string \<times> real \<Rightarrow> risk_analysis option"

definition getRiskCategory :: "real \<Rightarrow> risk_category" where
  "getRiskCategory score =
     (if score \<ge> 85 then Low
      else if score \<ge> 70 then MediumLow
      else if score \<ge> 55 then Medium
      else if score \<ge> 40 then MediumHigh
      else High)"

definition calculateRiskScore :: "risk_cache \<Rightarrow> vault \<Rightarrow> risk_analysis" where
  "calculateRiskScore cached vaultData =
     (let cacheKey = (vault_address vaultData, protocol vaultData, tvl_usd vaultData)
      in case cached cacheKey of
           Some hit \<Rightarrow> hit
         | None \<Rightarrow>
            (let score = 0; maxScore = 0;
                 protocolScore = getProtocolScore (protocol vaultData);
                 score = score + protocolScore * 0.4;
                 maxScore = maxScore + 100 * 0.4;
                 tvlScore = getTVLScore (tvl_usd vaultData);
                 score = score + tvlScore * 0.25;
                 maxScore = maxScore + 100 * 0.25;
                 apyScore = getAPYScore (apy vaultData);
                 score = score + apyScore * 0.2;
                 maxScore = maxScore + 100 * 0.2;
                 chainScore = getChainScore (chain vaultData);
                 score = score + chainScore * 0.1;
                 maxScore = maxScore + 100 * 0.1;
                 sourceScore = getSourceScore (data_source vaultData);
                 score = score + sourceScore * 0.05;
                 maxScore = maxScore + 100 * 0.05;
                 finalScore = jsRound ((score / maxScore) * 100)
             in \<lparr>riskScore = max 0 (min 100 finalScore),
                 breakdown = Some \<lparr>bd_protocol = jsRound protocolScore, bd_tvl = jsRound tvlScore,
                                    bd_apy = jsRound apyScore, bd_chain = jsRound chainScore,
                                    bd_source = jsRound sourceScore\<rparr>,
                 riskCategory = getRiskCategory finalScore\<rparr>))"

text \<open>
  \<^verbatim>\<open>Array.prototype.sort(compare)\<close>: a negative \<^verbatim>\<open>compare(a, b)\<close> puts \<open>a\<close> first, a positive
  one \<open>b\<close>. The sort is stable, so for a comparator that is consistent on the elements (a
  total preorder) its result is the same in every engine; \<open>jsSort\<close> computes it by stable
  insertion. It is used only for the comparators of the form \<^verbatim>\<open>b.key - a.key\<close>, which
  are consistent (\<open>consistent_on_key\<close>). For any other comparator the order is the
  engine's own (Node merges runs), and the engine's sort is an argument of the model.
\<close>

fun insertSorted :: "('a \<Rightarrow> 'a \<Rightarrow> real) \<Rightarrow> 'a \<Rightarrow> 'a list \<Rightarrow> 'a list" where
  "insertSorted cmp x [] = [x]"
| "insertSorted cmp x (y # ys) =
     (if cmp y x > 0 then x # y # ys else y # insertSorted cmp x ys)"

definition jsSort :: "('a \<Rightarrow> 'a \<Rightarrow> real) \<Rightarrow> 'a list \<Rightarrow> 'a list" where
  "jsSort cmp xs = foldl (\<lambda>sorted x. insertSorted cmp x sorted) [] xs"

text \<open>
  filterByRiskTolerance is an async function; this is the list its Promise resolves to.
  All risk scores are computed against the cache as it is when the call is made.
\<close>

definition riskLevelScores :: "string \<Rightarrow> real option" where
  "riskLevelScores = map_of
     [(''low'', 85), (''medium-low'', 70), (''medium'', 55), (''medium-high'', 40), (''high'', 0)]"

definition enrich :: "risk_cache \<Rightarrow> vault \<Rightarrow> vault" where
  "enrich cached vault =
     (let riskAnalysis = calculateRiskScore cached vault
      in vault\<lparr>risk_score := Some (riskScore riskAnalysis),
               risk_category := Some (riskCategory riskAnalysis),
               risk_breakdown := breakdown riskAnalysis\<rparr>)"

definition filterByRiskTolerance :: "risk_cache \<Rightarrow> vault list \<Rightarrow> string \<Rightarrow> vault list" where
  "filterByRiskTolerance cached vaults maxRiskLevel =
     (let minScore = orDefault (riskLevelScores maxRiskLevel) 55;
          enrichedVaults = map (enrich cached) vaults
      in jsSort (\<lambda>a b. num (risk_score b) - num (risk_score a))
           (filter (\<lambda>vault. num (risk_score vault) \<ge> minScore) enrichedVaults))"

subsection \<open>Validation score (VaultAPYExternalAdapter.calculateValidationScore)\<close>

datatype freshness = Fresh | Recent | Stale | Unknown

record validation =
  name_similarity :: bool
  asset_match :: bool
  tvl_reasonable :: bool
  data_freshness :: freshness
  has_real_address :: bool

definition calculateValidationScore :: "validation \<Rightarrow> real" where
  "calculateValidationScore v =
     (let score = 0;
          score = (if has_real_address v then score + 30 else score);
          score = (if asset_match v then score + 25 else score);
          score = (if name_similarity v then score + 20 else score);
          score = (if tvl_reasonable v then score + 15 else score);
          score = (if data_freshness v = Fresh then score + 10
                   else if data_freshness v = Recent then score + 5
                   else score)
      in min score 100)"

text \<open>The weights of the four boolean checks and the freshness bonus, as the
  specification lists them.\<close>

definition weight :: "real \<Rightarrow> bool \<Rightarrow> real" where
  "weight w passed = (if passed then w else 0)"

definition freshness_bonus :: "freshness \<Rightarrow> real" where
  "freshness_bonus f = (case f of Fresh \<Rightarrow> 10 | Recent \<Rightarrow> 5 | Stale \<Rightarrow> 0 | Unknown \<Rightarrow> 0)"

subsection \<open>Best-vault ranking (VaultAPYExternalAdapter.getBestVault)\<close>

text \<open>
  The mapping step and the sort comparator of getBestVault. The products and quotients are
  exact here where the code rounds to a double; no statement below rests on the last
  digits of a risk-adjusted yield.
\<close>

definition getRiskAdjustedAPY :: "real \<Rightarrow> real \<Rightarrow> real" where
  "getRiskAdjustedAPY apy' riskScore' =
     (let riskMultiplier = riskScore' / 100 in apy' * riskMultiplier)"

definition withRiskAdjustedAPY :: "vault \<Rightarrow> vault" where
  "withRiskAdjustedAPY vault =
     vault\<lparr>risk_adjusted_apy := Some (getRiskAdjustedAPY (apy vault) (num (risk_score vault)))\<rparr>"

definition bestVaultCompare :: "vault \<Rightarrow> vault \<Rightarrow> real" where
  "bestVaultCompare a b =
     (let confidenceA = orDefault (validation_score a) 0;
          confidenceB = orDefault (validation_score b) 0
      in if \<bar>confidenceA - confidenceB\<bar> > 20 then confidenceB - confidenceA
         else num (risk_adjusted_apy b) - num (risk_adjusted_apy a))"

text \<open>
  The rule in the words of the specification, for comparison with the comparator: the
  confidence of a candidate is its \<^verbatim>\<open>validation_score\<close> (0 when it has none), its
  risk-adjusted yield is \<open>apy \<times> riskScore / 100\<close>; \<open>a\<close> is to be ranked ahead of \<open>b\<close> when
  the confidences differ by more than 20 and \<open>a\<close>'s is higher, or differ by at most 20 and
  \<open>a\<close>'s yield is higher. A ranking respects the rule when no candidate stands behind one
  it is to be ranked ahead of.
\<close>

definition confidence :: "vault \<Rightarrow> real" where
  "confidence v = (case validation_score v of None \<Rightarrow> 0 | Some c \<Rightarrow> c)"

definition risk_adjusted_yield :: "vault \<Rightarrow> real" where
  "risk_adjusted_yield v = apy v * (num (risk_score v) / 100)"

definition spec_ranks_ahead :: "vault \<Rightarrow> vault \<Rightarrow> bool" where
  "spec_ranks_ahead a b =
     (if \<bar>confidence a - confidence b\<bar> > 20 then confidence a > confidence b
      else risk_adjusted_yield a > risk_adjusted_yield b)"

definition spec_respects_rule :: "vault list \<Rightarrow> bool" where
  "spec_respects_rule ranked = sorted_wrt (\<lambda>first later. \<not> spec_ranks_ahead later first) ranked"

text \<open>A comparator is consistent on a set when the order it induces is total and transitive there.\<close>

definition consistent_on :: "'a set \<Rightarrow> ('a \<Rightarrow> 'a \<Rightarrow> real) \<Rightarrow> bool" where
  "consistent_on S cmp =
     ((\<forall>x\<in>S. \<forall>y\<in>S. cmp y x > 0 \<longrightarrow> cmp x y \<le> 0)
      \<and> (\<forall>x\<in>S. \<forall>y\<in>S. \<forall>z\<in>S. cmp x y \<le> 0 \<longrightarrow> cmp y z \<le> 0 \<longrightarrow> cmp x z \<le> 0))"

subsection \<open>Request handlers\<close>

text \<open>
  The handlers receive what their collectors returned. An \<^verbatim>\<open>async\<close> function returns a
  Promise; only \<^verbatim>\<open>await\<close> yields the array it resolves to. On a Promise \<^verbatim>\<open>.length\<close> is
  \<^verbatim>\<open>undefined\<close> and \<^verbatim>\<open>.map\<close> is not a function, so calling it raises a TypeError.
  A thrown error is the left summand of the result.
\<close>

definition toUpperChar :: "char \<Rightarrow> char" where
  "toUpperChar c =
     (if 97 \<le> (of_char c :: nat) \<and> (of_char c :: nat) \<le> 122
      then char_of ((of_char c :: nat) - 32) else c)"

definition toUpperCase :: "string \<Rightarrow> string" where
  "toUpperCase s = map toUpperChar s"

datatype js_error = Error string | TypeError string

fun message :: "js_error \<Rightarrow> string" where
  "message (Error m) = m"
| "message (TypeError m) = m"

datatype 'a js_value = Array "'a list" | Promise "'a list"

fun await :: "'a js_value \<Rightarrow> 'a js_value" where
  "await (Promise xs) = Array xs"
| "await (Array xs) = Array xs"

fun lengthOf :: "'a js_value \<Rightarrow> nat option" where
  "lengthOf (Array xs) = Some (length xs)"
| "lengthOf (Promise xs) = None"

fun callMap :: "string \<Rightarrow> ('a \<Rightarrow> 'b) \<Rightarrow> 'a js_value \<Rightarrow> js_error + 'b list" where
  "callMap var f (Array xs) = Inr (map f xs)"
| "callMap var f (Promise xs) = Inl (TypeError (var @ ''.map is not a function''))"

definition filterByAssetAndChain :: "vault list \<Rightarrow> string \<Rightarrow> string option \<Rightarrow> vault list" where
  "filterByAssetAndChain vaults asset chain' =
     (let filteredVaults =
            filter (\<lambda>vault. toUpperCase (asset_symbol vault) = toUpperCase asset) vaults
      in case chain' of
           None \<Rightarrow> filteredVaults
         | Some c \<Rightarrow>
             if c = [] then filteredVaults
             else filter (\<lambda>vault. toLowerCase (chain vault) = toLowerCase c) filteredVaults)"

text \<open>
  VaultAPYExternalAdapter.getBestVault. \<open>vaults\<close> is what the collection step returned,
  \<open>saveVaultData\<close> the outcome of the database write (\<open>None\<close> when it succeeds), \<open>now\<close> the
  clock, \<open>engineSort\<close> the engine's \<^verbatim>\<open>Array.prototype.sort\<close>. The call of
  filterByRiskTolerance is not awaited. The object returned lists fields of \<^verbatim>\<open>bestVault\<close>
  together with \<^verbatim>\<open>value\<close> and \<^verbatim>\<open>timestamp\<close>; the model returns the record.
\<close>

record best_vault =
  best :: vault
  "value" :: real
  timestamp :: real

type_synonym engine_sort = "(vault \<Rightarrow> vault \<Rightarrow> real) \<Rightarrow> vault list \<Rightarrow> vault list"

definition getBestVault ::
  "engine_sort \<Rightarrow> risk_cache \<Rightarrow> (vault list \<Rightarrow> js_error option) \<Rightarrow> real \<Rightarrow> vault list \<Rightarrow>
   string \<Rightarrow> string \<Rightarrow> string option \<Rightarrow> js_error + best_vault" where
  "getBestVault engineSort cached saveVaultData now vaults asset riskLevel chain' =
     (let filteredVaults = filterByAssetAndChain vaults asset chain';
          safeVaults = Promise (filterByRiskTolerance cached filteredVaults riskLevel)
      in if lengthOf safeVaults = Some 0
         then Inl (Error (''No vaults found for '' @ asset @ '' with '' @ riskLevel @ '' risk level''))
         else case callMap ''safeVaults'' withRiskAdjustedAPY safeVaults of
                Inl e \<Rightarrow> Inl e
              | Inr mapped \<Rightarrow>
                  (case engineSort bestVaultCompare mapped of
                     [] \<Rightarrow> Inl (TypeError ''Cannot read properties of undefined (reading 'vault_address')'')
                   | bestVault # _ \<Rightarrow>
                       (case saveVaultData [bestVault] of
                          Some e \<Rightarrow> Inl e
                        | None \<Rightarrow> Inr \<lparr>best = bestVault, value = apy bestVault * 100,
                                         timestamp = now\<rparr>)))"

text \<open>
  An HTTP response is a status and a JSON body. \<open>bestVaultRoute\<close> is the adapter's
  \<^verbatim>\<open>GET /best-vault/:asset/:riskLevel?\<close>, \<open>apiBestVaultRoute\<close> the API server's
  \<^verbatim>\<open>GET /api/v1/vaults/best/:asset\<close> from the point where \<open>vaults\<close> has been obtained;
  \<open>min_tvl\<close> is \<^verbatim>\<open>parseInt(min_tvl)\<close>. The server awaits filterByRiskTolerance.
\<close>

datatype body =
    BestVaultBody best_vault
  | ErrorBody string
  | NoVaultsBody string
  | VaultBody vault
  | VaultsBody "vault list"

datatype response = Response nat body

definition bestVaultRoute ::
  "engine_sort \<Rightarrow> risk_cache \<Rightarrow> (vault list \<Rightarrow> js_error option) \<Rightarrow> real \<Rightarrow> vault list \<Rightarrow>
   string \<Rightarrow> string option \<Rightarrow> response" where
  "bestVaultRoute engineSort cached saveVaultData now vaults asset riskLevel =
     (case getBestVault engineSort cached saveVaultData now vaults asset
             (case riskLevel of None \<Rightarrow> ''medium'' | Some r \<Rightarrow> if r = [] then ''medium'' else r) None of
        Inr result \<Rightarrow> Response 200 (BestVaultBody result)
      | Inl error \<Rightarrow> Response 500 (ErrorBody (message error)))"

definition apiBestVaultRoute ::
  "risk_cache \<Rightarrow> vault list \<Rightarrow> string \<Rightarrow> string \<Rightarrow> string option \<Rightarrow> real \<Rightarrow> response" where
  "apiBestVaultRoute cached vaults asset risk chain' min_tvl =
     (let filteredVaults =
            filter (\<lambda>vault. toUpperCase (asset_symbol vault) = toUpperCase asset
                            \<and> tvl_usd vault \<ge> min_tvl) vaults;
          filteredVaults =
            (case chain' of
               None \<Rightarrow> filteredVaults
             | Some c \<Rightarrow>
                 if c = [] then filteredVaults
                 else filter (\<lambda>vault. toLowerCase (chain vault) = toLowerCase c) filteredVaults);
          safeVaults = await (Promise (filterByRiskTolerance cached filteredVaults risk))
      in if lengthOf safeVaults = Some 0
         then Response 404 (NoVaultsBody ''No vaults found matching criteria'')
         else case callMap ''safeVaults'' withRiskAdjustedAPY safeVaults of
                Inl e \<Rightarrow> Response 500 (ErrorBody (message e))
              | Inr mapped \<Rightarrow>
                  (case jsSort (\<lambda>a b. num (risk_adjusted_apy b) - num (risk_adjusted_apy a)) mapped of
                     [] \<Rightarrow> Response 500 (ErrorBody ''Cannot read properties of undefined (reading 'vault_address')'')
                   | bestVault # _ \<Rightarrow> Response 200 (VaultBody bestVault)))"


definition jsMin :: "int option \<Rightarrow> int \<Rightarrow> int option" where
  "jsMin x y = (case x of None \<Rightarrow> None | Some n \<Rightarrow> Some (min n y))"

definition sliceFromStart :: "int option \<Rightarrow> 'a list \<Rightarrow> 'a list" where
  "sliceFromStart end xs =
     (case end of
        None \<Rightarrow> []
      | Some e \<Rightarrow> if e < 0 then take (nat (max (int (length xs) + e) 0)) xs
                  else take (nat (min e (int (length xs)))) xs)"







subsection \<open>Consumer contract (VaultAPYConsumer.requestProtocolList)\<close>

text \<open>
  The Solidity contract of \<^verbatim>\<open>contracts/deploy.js\<close>. A \<^verbatim>\<open>uint256\<close> is a word of 256 bits.
  \<open>linkBalance\<close> is what \<^verbatim>\<open>LINK.balanceOf(address(this))\<close> returns and \<open>fee\<close> the contract's
  fee. A failed \<^verbatim>\<open>require\<close> reverts with its message (the left summand). Otherwise the
  result is the list of parameters of the Chainlink request, in the order in which they
  are added, as it is handed to \<^verbatim>\<open>sendChainlinkRequest\<close>; the bookkeeping of the request id
  after the request has been sent is left out.
\<close>

datatype param = Str string | Uint "256 word"

definition requestProtocolList ::
  "256 word \<Rightarrow> 256 word \<Rightarrow> string \<Rightarrow> 256 word \<Rightarrow> 256 word \<Rightarrow> string + (string \<times> param) list" where
  "requestProtocolList linkBalance fee asset minTvl maxResults =
     (if \<not> linkBalance \<ge> fee then Inl ''Insufficient LINK balance''
      else if \<not> (maxResults > 0 \<and> maxResults \<le> 50) then Inl ''Results must be 1-50''
      else Inr ([(''asset'', Str asset), (''request_type'', Str ''top_vaults''),
                 (''limit'', Uint maxResults)]
                @ (if minTvl > 0 then [(''min_tvl'', Uint minTvl)] else [])))"

subsection \<open>Enhanced vault collector\<close>

text \<open>
  EnhancedVaultOnChainCollector and the guards of its base class VaultOnChainCollector. An
  RPC read is an event; a function returns the reads it has made together with its result
  (\<open>None\<close> for \<^verbatim>\<open>null\<close>). What lies behind the guards is an argument: \<open>readVault\<close> is the
  body of getVaultOnChainData after its two checks, \<open>calculateProtocolAPY\<close> the dispatcher
  of the APY calculators (it throws on a \<^verbatim>\<open>null\<close> protocol), \<open>getBlockNumber\<close> the outcome of
  \<^verbatim>\<open>provider.getBlockNumber()\<close> (\<open>None\<close> when the call fails), \<open>getSharePrice\<close> the share price
  read at a block. \<open>random\<close> is the value of \<^verbatim>\<open>Math.random()\<close>, \<open>now\<close> of \<^verbatim>\<open>Date.now()\<close>.
  Calls that the code runs concurrently (\<^verbatim>\<open>Promise.all\<close>, \<^verbatim>\<open>Promise.allSettled\<close>) have their
  reads listed in the order in which the calls are started.
\<close>

datatype rpc = GetBlockNumber string | ContractRead string string

text \<open>The chains for which the constructor creates a provider.\<close>

definition providers :: "string list" where
  "providers = [''ethereum'', ''base'', ''arbitrum'', ''polygon'', ''optimism'', ''avalanche'']"

fun startsWith :: "string \<Rightarrow> string \<Rightarrow> bool" where
  "startsWith s [] = True"
| "startsWith [] (p # ps) = False"
| "startsWith (c # cs) (p # ps) = (c = p \<and> startsWith cs ps)"

fun includes_str :: "string \<Rightarrow> string \<Rightarrow> bool" where
  "includes_str [] sub = (sub = [])"
| "includes_str (c # cs) sub = (startsWith (c # cs) sub \<or> includes_str cs sub)"

definition isEthereumAddress :: "string \<Rightarrow> bool" where
  "isEthereumAddress address =
     (address \<noteq> [] \<and> startsWith address ''0x'' \<and> length address = 42)"

record estimation =
  est_vault_address :: string
  est_chain :: string
  est_protocol :: string
  calculated_apy :: real
  apy_calculation_method :: string
  confidence_score :: real
  estimation_type :: string
  protocol_category :: string
  est_note :: string
  calculation_timestamp :: real
  is_estimation :: bool

definition getProtocolEstimationForUUID ::
  "real \<Rightarrow> real \<Rightarrow> string \<Rightarrow> string \<Rightarrow> string option \<Rightarrow> estimation option" where
  "getProtocolEstimationForUUID random now uuid chain' protocol' =
     (case protocol' of
        None \<Rightarrow> None
      | Some p \<Rightarrow>
          (let protocolLower = toLowerCase p;
               (estimatedAPY, confidence, method) =
                 (if includes_str protocolLower ''aave''
                  then (0.02 + random * 0.03, 0.6, ''aave_typical_range'')
                  else if includes_str protocolLower ''compound''
                  then (0.015 + random * 0.025, 0.6, ''compound_typical_range'')
                  else if includes_str protocolLower ''morpho''
                  then (0.025 + random * 0.04, 0.5, ''morpho_typical_range'')
                  else if includes_str protocolLower ''yearn''
                  then (0.03 + random * 0.05, 0.4, ''yearn_typical_range'')
                  else (0.04, 0.3, ''protocol_estimation''))
           in Some \<lparr>est_vault_address = uuid, est_chain = chain', est_protocol = p,
                    calculated_apy = estimatedAPY, apy_calculation_method = method,
                    confidence_score = confidence,
                    estimation_type = ''uuid_protocol_based'',
                    protocol_category = protocolLower,
                    est_note = ''UUID-based estimation, not on-chain calculation'',
                    calculation_timestamp = now, is_estimation = True\<rparr>))"

text \<open>
  VaultOnChainCollector.getVaultOnChainData: both checks throw inside the \<^verbatim>\<open>try\<close>, and the
  \<^verbatim>\<open>catch\<close> returns \<^verbatim>\<open>null\<close>.
\<close>

definition getVaultOnChainData ::
  "(string \<Rightarrow> string \<Rightarrow> string option \<Rightarrow> rpc list \<times> 'b option) \<Rightarrow>
   string \<Rightarrow> string \<Rightarrow> string option \<Rightarrow> rpc list \<times> 'b option" where
  "getVaultOnChainData readVault vaultAddress chain' protocol' =
     (if chain' \<notin> set providers then ([], None)
      else if vaultAddress = [] \<or> \<not> startsWith vaultAddress ''0x'' \<or> length vaultAddress \<noteq> 42
      then ([], None)
      else readVault vaultAddress chain' protocol')"

datatype ('b, 'a) enhanced = Estimated estimation | OnChain 'b "'a option"

definition getVaultDataWithCalculatedAPY ::
  "(string \<Rightarrow> string \<Rightarrow> string option \<Rightarrow> rpc list \<times> 'b option) \<Rightarrow>
   (string \<Rightarrow> string option \<Rightarrow> string \<Rightarrow> 'm option \<Rightarrow> rpc list \<times> (js_error + 'a option)) \<Rightarrow>
   real \<Rightarrow> real \<Rightarrow> string \<Rightarrow> string \<Rightarrow> string option \<Rightarrow> 'm option \<Rightarrow>
   rpc list \<times> ('b, 'a) enhanced option" where
  "getVaultDataWithCalculatedAPY readVault calculateProtocolAPY random now
       vaultAddress chain' protocol' marketId =
     (if \<not> isEthereumAddress vaultAddress
      then ([], map_option Estimated
                  (getProtocolEstimationForUUID random now vaultAddress chain' protocol'))
      else case getVaultOnChainData readVault vaultAddress chain' protocol' of
             (reads, None) \<Rightarrow> (reads, None)
           | (reads, Some basicData) \<Rightarrow>
               (case calculateProtocolAPY vaultAddress protocol' chain' marketId of
                  (reads', Inl error) \<Rightarrow> (reads @ reads', None)
                | (reads', Inr None) \<Rightarrow> (reads @ reads', Some (OnChain basicData None))
                | (reads', Inr (Some apyData)) \<Rightarrow>
                    (reads @ reads', Some (OnChain basicData (Some apyData)))))"

text \<open>
  The result of one APY calculation; its \<^verbatim>\<open>calculation_details\<close>, which nothing here
  reads, are left out.
\<close>

record apy_data =
  data_calculated_apy :: real
  data_method :: string
  data_confidence_score :: real

definition getProtocolAPY ::
  "(string \<Rightarrow> string option \<Rightarrow> string \<Rightarrow> 'm option \<Rightarrow> rpc list \<times> (js_error + apy_data option)) \<Rightarrow>
   string \<Rightarrow> string option \<Rightarrow> string \<Rightarrow> 'm option \<Rightarrow> rpc list \<times> apy_data option" where
  "getProtocolAPY calculateProtocolAPY vaultAddress protocol' chain' marketId =
     (if chain' \<notin> set providers then ([], None)
      else case calculateProtocolAPY vaultAddress protocol' chain' marketId of
             (reads, Inl error) \<Rightarrow> (reads, None)
           | (reads, Inr apyData) \<Rightarrow> (reads, apyData))"

definition blocksPerYear :: "string \<Rightarrow> real option" where
  "blocksPerYear = map_of
     [(''ethereum'', 2628000), (''polygon'', 15768000), (''arbitrum'', 2628000),
      (''base'', 15768000), (''optimism'', 31536000), (''avalanche'', 15768000)]"

text \<open>The decimal digits of a number, as a template literal prints it.\<close>

fun numberToString :: "nat \<Rightarrow> string" where
  "numberToString n =
     (if n < 10 then [char_of (48 + n)]
      else numberToString (n div 10) @ [char_of (48 + n mod 10)])"

declare numberToString.simps [simp del]

text \<open>
  calculateHistoricalAPY. Without a provider \<^verbatim>\<open>provider.getBlockNumber()\<close> is a TypeError
  before any read; with one, the block number is requested first, whatever the vault
  address is. Every chain with a provider has its \<open>blocksPerYear\<close>. The quotient by a
  historical share price of 0 is \<^verbatim>\<open>Infinity\<close> or \<^verbatim>\<open>NaN\<close> in the code; no statement below
  concerns it.
\<close>

definition calculateHistoricalAPY ::
  "(string \<Rightarrow> int option) \<Rightarrow> (string \<Rightarrow> string \<Rightarrow> int \<Rightarrow> rpc list \<times> real option) \<Rightarrow>
   string \<Rightarrow> string \<Rightarrow> string option \<Rightarrow> nat \<Rightarrow> rpc list \<times> apy_data option" where
  "calculateHistoricalAPY getBlockNumber getSharePrice vaultAddress chain' protocol' daysBack =
     (if chain' \<notin> set providers then ([], None)
      else case getBlockNumber chain' of
             None \<Rightarrow> ([GetBlockNumber chain'], None)
           | Some currentBlock \<Rightarrow>
               (let blocksPerDay = the (blocksPerYear chain') / 365;
                    blocksBack = \<lfloor>blocksPerDay * real daysBack\<rfloor>;
                    historicalBlock = currentBlock - blocksBack;
                    current = getSharePrice vaultAddress chain' currentBlock;
                    historical = getSharePrice vaultAddress chain' historicalBlock;
                    reads = GetBlockNumber chain' # fst current @ fst historical
                in case (snd current, snd historical) of
                     (Some currentPrice, Some historicalPrice) \<Rightarrow>
                       (let priceChange = (currentPrice - historicalPrice) / historicalPrice;
                            annualizedReturn = priceChange * (365 / real daysBack)
                        in (reads, Some \<lparr>data_calculated_apy = annualizedReturn,
                                          data_method = ''historical_'' @ numberToString daysBack @ ''d'',
                                          data_confidence_score = 0.8\<rparr>))
                   | _ \<Rightarrow> (reads, None)))"

text \<open>
  getComprehensiveVaultAnalysis starts the four calculations without looking at the shape
  of the address and returns \<^verbatim>\<open>null\<close> when there is no basic data. \<open>addMethod\<close> is the block
  that the code repeats for the protocol, weekly and monthly results; an entry of
  \<^verbatim>\<open>calculation_methods\<close> is (method, apy, confidence).
\<close>

definition addMethod ::
  "apy_data option \<Rightarrow> (string \<times> real \<times> real) list \<times> real option \<times> real
   \<Rightarrow> (string \<times> real \<times> real) list \<times> real option \<times> real" where
  "addMethod result acc =
     (case result of
        None \<Rightarrow> acc
      | Some r \<Rightarrow>
          (let apyMethods = fst acc @ [(data_method r, data_calculated_apy r, data_confidence_score r)];
               bestAPY = fst (snd acc);
               highestConfidence = snd (snd acc)
           in if data_confidence_score r > highestConfidence
              then (apyMethods, Some (data_calculated_apy r), data_confidence_score r)
              else (apyMethods, bestAPY, highestConfidence)))"

record 'b analysis =
  basicData :: 'b
  analysis_calculated_apy :: "real option"
  analysis_confidence_score :: real
  calculation_methods :: "(string \<times> real \<times> real) list"
  protocol_apy :: "apy_data option"
  weekly_apy :: "apy_data option"
  monthly_apy :: "apy_data option"
  comprehensive_analysis :: bool
  analysis_timestamp :: real

definition getComprehensiveVaultAnalysis ::
  "(string \<Rightarrow> string \<Rightarrow> string option \<Rightarrow> rpc list \<times> 'b option) \<Rightarrow>
   (string \<Rightarrow> string option \<Rightarrow> string \<Rightarrow> 'm option \<Rightarrow> rpc list \<times> (js_error + apy_data option)) \<Rightarrow>
   (string \<Rightarrow> int option) \<Rightarrow> (string \<Rightarrow> string \<Rightarrow> int \<Rightarrow> rpc list \<times> real option) \<Rightarrow> real \<Rightarrow>
   string \<Rightarrow> string \<Rightarrow> string option \<Rightarrow> 'm option \<Rightarrow> rpc list \<times> 'b analysis option" where
  "getComprehensiveVaultAnalysis readVault calculateProtocolAPY getBlockNumber getSharePrice now
       vaultAddress chain' protocol' marketId =
     (let basic = getVaultOnChainData readVault vaultAddress chain' protocol';
          protocolAPY = getProtocolAPY calculateProtocolAPY vaultAddress protocol' chain' marketId;
          weeklyAPY = calculateHistoricalAPY getBlockNumber getSharePrice vaultAddress chain'
                        protocol' 7;
          monthlyAPY = calculateHistoricalAPY getBlockNumber getSharePrice vaultAddress chain'
                         protocol' 30;
          reads = fst basic @ fst protocolAPY @ fst weeklyAPY @ fst monthlyAPY
      in case snd basic of
           None \<Rightarrow> (reads, None)
         | Some basicData' \<Rightarrow>
             (let best = addMethod (snd monthlyAPY)
                           (addMethod (snd weeklyAPY)
                              (addMethod (snd protocolAPY) ([], None, 0)))
              in (reads, Some \<lparr>basicData = basicData',
                                analysis_calculated_apy = fst (snd best),
                                analysis_confidence_score = snd (snd best),
                                calculation_methods = fst best,
                                protocol_apy = snd protocolAPY,
                                weekly_apy = snd weeklyAPY,
                                monthly_apy = snd monthlyAPY,
                                comprehensive_analysis = True,
                                analysis_timestamp = now\<rparr>)))"

subsection \<open>Cache manager: request deduplication\<close>

text \<open>
  getOrSetWithDeduplication with the in-memory cache (no Redis), as a state machine over
  the CacheManager's tables. One call is cut at its suspension points into events:
  \<^item> \<open>Call\<close>: the synchronous start: look the key up in \<^verbatim>\<open>requestCache\<close> and return the
    promise found there, or read the cache and suspend at \<^verbatim>\<open>await this.getVaultData(key)\<close>;
  \<^item> \<open>Resume\<close>: the oldest suspended call continues (the microtask queue is first-in
    first-out): return the cached value, or invoke \<^verbatim>\<open>asyncFunction\<close>, store its promise in
    \<^verbatim>\<open>requestCache\<close> and return it;
  \<^item> \<open>Settle\<close>: the upstream computation of a promise completes with a result or fails;
  \<^item> \<open>Advance\<close>: time passes.
  \<open>upstream\<close> logs the invocations of \<^verbatim>\<open>asyncFunction\<close>, \<open>results\<close> what each caller got.
  Cached values are objects or arrays, hence truthy; a falsy upstream result is \<open>None\<close>.
\<close>

datatype 'v promise_state = Pending | Fulfilled "'v option" | Rejected js_error

datatype 'v returned = FromCache 'v | InFlight nat

record 'v cache_manager =
  clock :: real
  memoryCache :: "string \<rightharpoonup> 'v"
  memoryTTL :: "string \<rightharpoonup> real"
  requestCache :: "string \<rightharpoonup> nat"
  promises :: "(string \<times> real \<times> 'v promise_state) list"
  upstream :: "string list"
  suspended :: "(nat \<times> string \<times> real \<times> 'v option) list"
  results :: "(nat \<times> 'v returned) list"

definition cold :: "'v cache_manager" where
  "cold = \<lparr>clock = 0, memoryCache = Map.empty, memoryTTL = Map.empty,
           requestCache = Map.empty, promises = [], upstream = [], suspended = [],
           results = []\<rparr>"

definition vaultDataKey :: "string \<Rightarrow> string" where
  "vaultDataKey key = ''vault:'' @ key"

definition dedupKey :: "string \<Rightarrow> string" where
  "dedupKey key = ''dedup:'' @ key"

definition getVaultData :: "'v cache_manager \<Rightarrow> string \<Rightarrow> 'v option" where
  "getVaultData cm key =
     (case memoryCache cm (vaultDataKey key) of
        None \<Rightarrow> None
      | Some cached \<Rightarrow>
          (case memoryTTL cm (vaultDataKey key) of
             None \<Rightarrow> None
           | Some expiry \<Rightarrow> if expiry > clock cm then Some cached else None))"

definition cleanupMemoryCache :: "'v cache_manager \<Rightarrow> 'v cache_manager" where
  "cleanupMemoryCache cm =
     (let expired = (\<lambda>key. case memoryTTL cm key of None \<Rightarrow> False
                                | Some expiry \<Rightarrow> expiry \<le> clock cm)
      in cm\<lparr>memoryCache := (\<lambda>key. if expired key then None else memoryCache cm key),
            memoryTTL := (\<lambda>key. if expired key then None else memoryTTL cm key)\<rparr>)"

definition setVaultData :: "'v cache_manager \<Rightarrow> string \<Rightarrow> 'v \<Rightarrow> real \<Rightarrow> 'v cache_manager" where
  "setVaultData cm key data ttlSeconds =
     cleanupMemoryCache
       (cm\<lparr>memoryCache := (memoryCache cm)(vaultDataKey key \<mapsto> data),
            memoryTTL := (memoryTTL cm)(vaultDataKey key \<mapsto> clock cm + ttlSeconds * 1000)\<rparr>)"

datatype 'v event =
    Call nat string real
  | Resume
  | Settle nat "js_error + 'v option"
  | Advance real

fun step :: "'v event \<Rightarrow> 'v cache_manager \<Rightarrow> 'v cache_manager" where
  "step (Call caller key ttlSeconds) cm =
     (let cacheKey = dedupKey key
      in case requestCache cm cacheKey of
           Some promise \<Rightarrow> cm\<lparr>results := results cm @ [(caller, InFlight promise)]\<rparr>
         | None \<Rightarrow>
             cm\<lparr>suspended := suspended cm @ [(caller, key, ttlSeconds, getVaultData cm key)]\<rparr>)"
| "step Resume cm =
     (case suspended cm of
        [] \<Rightarrow> cm
      | (caller, key, ttlSeconds, cached) # rest \<Rightarrow>
          (case cached of
             Some hit \<Rightarrow> cm\<lparr>suspended := rest, results := results cm @ [(caller, FromCache hit)]\<rparr>
           | None \<Rightarrow>
               (let promise = length (promises cm)
                in cm\<lparr>suspended := rest,
                      upstream := upstream cm @ [key],
                      promises := promises cm @ [(key, ttlSeconds, Pending)],
                      requestCache := (requestCache cm)(dedupKey key \<mapsto> promise),
                      results := results cm @ [(caller, InFlight promise)]\<rparr>)))"
| "step (Settle promise outcome) cm =
     (if promise < length (promises cm)
      then (case promises cm ! promise of
              (key, ttlSeconds, Pending) \<Rightarrow>
                (case outcome of
                   Inr result \<Rightarrow>
                     (let cm = (case result of Some data \<Rightarrow> setVaultData cm key data ttlSeconds
                                | None \<Rightarrow> cm)
                      in cm\<lparr>requestCache := (requestCache cm)(dedupKey key := None),
                            promises := (promises cm)[promise := (key, ttlSeconds, Fulfilled result)]\<rparr>)
                 | Inl error \<Rightarrow>
                     cm\<lparr>requestCache := (requestCache cm)(dedupKey key := None),
                        promises := (promises cm)[promise := (key, ttlSeconds, Rejected error)]\<rparr>)
            | (key, ttlSeconds, Fulfilled v) \<Rightarrow> cm
            | (key, ttlSeconds, Rejected e) \<Rightarrow> cm)
      else cm)"
| "step (Advance ms) cm = cm\<lparr>clock := clock cm + ms\<rparr>"

definition run :: "'v event list \<Rightarrow> 'v cache_manager \<Rightarrow> 'v cache_manager" where
  "run events cm = fold step events cm"

definition sameTick :: "nat \<Rightarrow> string \<Rightarrow> real \<Rightarrow> 'v event list" where
  "sameTick n key ttlSeconds = map (\<lambda>caller. Call caller key ttlSeconds) [0..<n] @ replicate n Resume"

subsection \<open>Example records\<close>

text \<open>
  Records for the concrete evaluations: a DefiLlama pool under an opaque pool id with a
  low risk score; two records of one vault that differ in casing, TVL and risk score, and
  a third that ties with the second on TVL; a candidate with a given confidence and
  risk-adjusted yield (its risk score is 100, so the yield is its APY); two validated USDC
  vaults of confidence 90 and 65; an Aave vault.
\<close>

definition risky_vault :: vault where
  "risky_vault = \<lparr>vault_address = ''747c1d2a-c668-4682-b9f9-296708a3dd90'', chain = ''bsc'',
     protocol = ''Aerodrome Slipstream'', name = ''aerodrome USDC'', asset_symbol = ''USDC'',
     apy = 300, tvl_usd = 50000, risk_score = None, data_source = ''defillama'',
     validation_score = None, source_priority = None, risk_category = None,
     risk_breakdown = None, risk_adjusted_apy = None\<rparr>"

definition conflict_a :: vault where
  "conflict_a = \<lparr>vault_address = ''0xAbCdEf0123456789aBcDeF0123456789AbCdEf01'', chain = ''base'',
     protocol = ''aave-v3'', name = ''Aave USDC'', asset_symbol = ''USDC'', apy = 3,
     tvl_usd = 200000000, risk_score = None, data_source = ''defillama'',
     validation_score = None, source_priority = None, risk_category = None,
     risk_breakdown = None, risk_adjusted_apy = None\<rparr>"

definition conflict_b :: vault where
  "conflict_b = \<lparr>vault_address = ''0xabcdef0123456789abcdef0123456789abcdef01'', chain = ''Base'',
     protocol = ''aave'', name = ''Aave v3 USDC'', asset_symbol = ''USDC'', apy = 4,
     tvl_usd = 100000000, risk_score = Some 80, data_source = ''vaultsfyi'',
     validation_score = None, source_priority = None, risk_category = None,
     risk_breakdown = None, risk_adjusted_apy = None\<rparr>"

definition cand :: "real \<Rightarrow> real \<Rightarrow> vault" where
  "cand conf yield = \<lparr>vault_address = ''0x0000000000000000000000000000000000000001'', chain = ''base'',
     protocol = ''aave-v3'', name = ''Aave USDC'', asset_symbol = ''USDC'', apy = yield,
     tvl_usd = 200000000, risk_score = Some 100, data_source = ''onchain'',
     validation_score = Some conf, source_priority = None, risk_category = Some Low,
     risk_breakdown = None, risk_adjusted_apy = None\<rparr>"

definition trusted_vault :: vault where
  "trusted_vault = \<lparr>vault_address = ''0xb125E6687d4313864e53df431d5425969c15Eb2F'', chain = ''base'',
     protocol = ''compound-v3'', name = ''compound-v3 USDC'', asset_symbol = ''USDC'', apy = 2,
     tvl_usd = 200000000, risk_score = None, data_source = ''defillama'',
     validation_score = Some 90, source_priority = Some ''defillama'', risk_category = None,
     risk_breakdown = None, risk_adjusted_apy = None\<rparr>"

definition yield_vault :: vault where
  "yield_vault = \<lparr>vault_address = ''0x98C23E9d8f34FEFb1B7BD6a91B7FF122F4e16F5c'', chain = ''ethereum'',
     protocol = ''aave-v3'', name = ''aave-v3 USDC'', asset_symbol = ''USDC'', apy = 9,
     tvl_usd = 50000000, risk_score = None, data_source = ''defillama'',
     validation_score = Some 65, source_priority = Some ''defillama'', risk_category = None,
     risk_breakdown = None, risk_adjusted_apy = None\<rparr>"


definition tie_a :: vault where
  "tie_a = conflict_a\<lparr>tvl_usd := 100000000\<rparr>"

section \<open>Theorems\<close>

subsection \<open>Reconciliation\<close>

lemma vaultKey_tag [simp]: "vaultKey (v\<lparr>source_priority := p\<rparr>) = vaultKey v"
  by (simp add: vaultKey_def)

lemma set_update_subset:
  "(k', e') \<in> set (AList.update k e m) \<Longrightarrow> (k', e') = (k, e) \<or> (k', e') \<in> set m"
  by (induction m) (auto split: if_splits)

lemma keyed_update:
  assumes "keyed m" "vaultKey e = k"
  shows "keyed (AList.update k e m)"
  using assms
  by (auto simp: keyed_def distinct_update list_all_iff dest!: set_update_subset)

lemma keyed_addDefiLlama: "keyed m \<Longrightarrow> keyed (addDefiLlama v m)"
  by (simp add: addDefiLlama_def keyed_update)

lemma keyed_addVaultsFyi: "keyed m \<Longrightarrow> keyed (addVaultsFyi v m)"
  by (simp add: addVaultsFyi_def Let_def keyed_update split: option.splits)

lemma keyed_fold_addDefiLlama: "keyed m \<Longrightarrow> keyed (fold addDefiLlama vs m)"
  by (induction vs arbitrary: m) (simp_all add: keyed_addDefiLlama)

lemma keyed_fold_addVaultsFyi: "keyed m \<Longrightarrow> keyed (fold addVaultsFyi vs m)"
  by (induction vs arbitrary: m) (simp_all add: keyed_addVaultsFyi)

lemma keyed_values: "keyed m \<Longrightarrow> map vaultKey (map snd m) = map fst m"
  by (induction m) (auto simp: keyed_def)

lemma toLowerCase_append: "toLowerCase (a @ b) = toLowerCase a @ toLowerCase b"
  by (simp add: toLowerCase_def)

lemma toLowerCase_dash: "toLowerCase ''-'' = ''-''"
  by (simp add: toLowerCase_def toLowerChar_def)

lemma vaultKey_identity:
  "vaultKey v = fst (identity v) @ ''-'' @ snd (identity v)"
  by (simp add: vaultKey_def identity_def toLowerCase_def toLowerChar_def)

lemma distinct_map_factor:
  "distinct (map (\<lambda>x. f (g x)) xs) \<Longrightarrow> distinct (map g xs)"
  by (induction xs) auto

lemma distinct_keys_collect: "distinct (map vaultKey (collectFromAllSources dl vf))"
proof -
  define m where "m = fold addVaultsFyi vf (fold addDefiLlama dl [])"
  have "keyed []" by (simp add: keyed_def)
  then have k: "keyed m"
    unfolding m_def by (intro keyed_fold_addVaultsFyi keyed_fold_addDefiLlama)
  then have d: "distinct (map fst m)"
    by (simp add: keyed_def)
  have "collectFromAllSources dl vf = map snd m"
    by (simp add: collectFromAllSources_def m_def)
  then show ?thesis
    using d by (simp only: keyed_values [OF k])
qed

text \<open>
  C3: after reconciliation at most one record per identity is left. The identity of a
  record is the pair of its lower-cased address and its lower-cased chain, so records that
  differ only in the casing of either collapse: no two entries of the merged output have
  the same identity.
\<close>

theorem one_record_per_identity:
  "distinct (map identity (collectFromAllSources defiLlamaVaults vaultsFyiVaults))"
proof -
  have eq: "vaultKey = (\<lambda>v. (\<lambda>p. fst p @ ''-'' @ snd p) (identity v))"
    by (rule ext) (simp add: vaultKey_identity)
  have "distinct (map vaultKey (collectFromAllSources defiLlamaVaults vaultsFyiVaults))"
    by (rule distinct_keys_collect)
  then show ?thesis
    unfolding eq
    by (rule distinct_map_factor [where f = "\<lambda>p. fst p @ ''-'' @ snd p" and g = identity])
qed








lemma overrides_tag [simp]: "overrides b (a\<lparr>source_priority := p\<rparr>) = overrides b a"
  by (simp add: overrides_def)



lemma untag_tag [simp]: "untag (v\<lparr>source_priority := p\<rparr>) = untag v"
  by (simp add: untag_def)


lemma conflict_keys:
  "vaultKey conflict_a = ''0xabcdef0123456789abcdef0123456789abcdef01-base''"
  "vaultKey conflict_b = ''0xabcdef0123456789abcdef0123456789abcdef01-base''"
  by code_simp+


text \<open>
  Every identity key of the input is present in the output, so each identity has exactly
  one record there; two records that differ only in casing collapse into one.
\<close>

lemma keys_addDefiLlama: "fst ` set (addDefiLlama v m) = insert (vaultKey v) (fst ` set m)"
  by (simp add: addDefiLlama_def dom_update)

lemma keys_addVaultsFyi: "fst ` set (addVaultsFyi v m) = insert (vaultKey v) (fst ` set m)"
proof (cases "map_of m (vaultKey v)")
  case None
  then show ?thesis by (simp add: addVaultsFyi_def dom_update)
next
  case (Some e)
  from map_of_SomeD [OF Some] have "vaultKey v \<in> fst ` set m" by force
  with Some show ?thesis by (auto simp: addVaultsFyi_def dom_update)
qed

lemma keys_fold_addDefiLlama:
  "fst ` set (fold addDefiLlama vs m) = fst ` set m \<union> vaultKey ` set vs"
  by (induction vs arbitrary: m) (auto simp: keys_addDefiLlama)

lemma keys_fold_addVaultsFyi:
  "fst ` set (fold addVaultsFyi vs m) = fst ` set m \<union> vaultKey ` set vs"
  by (induction vs arbitrary: m) (auto simp: keys_addVaultsFyi)

lemma collect_covers_keys:
  "vaultKey ` set (collectFromAllSources dl vf) = vaultKey ` (set dl \<union> set vf)"
proof -
  define m where "m = fold addVaultsFyi vf (fold addDefiLlama dl [])"
  have "keyed []" by (simp add: keyed_def)
  then have k: "keyed m"
    unfolding m_def by (intro keyed_fold_addVaultsFyi keyed_fold_addDefiLlama)
  have "set (map vaultKey (map snd m)) = set (map fst m)"
    by (simp only: keyed_values [OF k])
  then have "vaultKey ` set (map snd m) = fst ` set m" by (simp add: image_image)
  moreover have "collectFromAllSources dl vf = map snd m"
    by (simp add: collectFromAllSources_def m_def)
  moreover have "fst ` set m = vaultKey ` (set dl \<union> set vf)"
    by (simp add: m_def keys_fold_addVaultsFyi keys_fold_addDefiLlama image_Un)
  ultimately show ?thesis by simp
qed

lemma casing_collapses:
  "identity conflict_a = identity conflict_b
   \<and> vault_address conflict_a \<noteq> vault_address conflict_b
   \<and> length (collectFromAllSources [conflict_a] [conflict_b]) = 1"
proof -
  have "identity conflict_a = identity conflict_b" by code_simp
  moreover have "vault_address conflict_a \<noteq> vault_address conflict_b"
    by (simp add: conflict_a_def conflict_b_def)
  moreover have "length (collectFromAllSources [conflict_a] [conflict_b]) = 1"
    by (simp add: collectFromAllSources_def addDefiLlama_def addVaultsFyi_def conflict_keys Let_def)
  ultimately show ?thesis by simp
qed



text \<open>
  The two restrictions of the amended statement are needed. On a tie of TVL the record
  seen first is kept, in the lending-only merge as well; and duplicates inside one stream
  are resolved by the slot: the first slot keeps the last record, the second slot applies
  the override test.
\<close>

lemma tie_key: "vaultKey tie_a = vaultKey conflict_b"
  by code_simp

lemma lending_tie_first_seen:
  "map untag (collectFromLendingSources [tie_a] [conflict_b]) = [untag tie_a]
   \<and> map untag (collectFromLendingSources [conflict_b] [tie_a]) = [untag conflict_b]
   \<and> untag tie_a \<noteq> untag conflict_b"
proof -
  have t: "tvl_usd tie_a = tvl_usd conflict_b"
    by (simp add: tie_a_def conflict_b_def)
  have "untag tie_a \<noteq> untag conflict_b"
    by (simp add: untag_def tie_a_def conflict_a_def conflict_b_def)
  then show ?thesis
    by (simp add: collectFromLendingSources_def addDefiLlama_def addVaultsFyiLending_def
          tie_key t Let_def)
qed

lemma duplicates_in_one_stream:
  "map untag (collectFromAllSources [conflict_a, tie_a] []) = [untag tie_a]
   \<and> map untag (collectFromAllSources [] [conflict_a, tie_a]) = [untag conflict_a]"
proof -
  have k: "vaultKey tie_a = vaultKey conflict_a"
    by (simp add: tie_key conflict_keys)
  have o: "\<not> overrides tie_a conflict_a"
    by (simp add: overrides_def truthy_def tie_a_def conflict_a_def)
  show ?thesis
    by (simp add: collectFromAllSources_def addDefiLlama_def addVaultsFyi_def k o Let_def)
qed

subsection \<open>Sorting\<close>

lemma set_insertSorted [simp]: "set (insertSorted cmp x ys) = insert x (set ys)"
  by (induction ys) auto

lemma mset_insertSorted [simp]: "mset (insertSorted cmp x ys) = add_mset x (mset ys)"
  by (induction ys) auto

lemma mset_foldl_insertSorted:
  "mset (foldl (\<lambda>sorted x. insertSorted cmp x sorted) acc xs) = mset acc + mset xs"
  by (induction xs arbitrary: acc) auto

lemma mset_jsSort [simp]: "mset (jsSort cmp xs) = mset xs"
  by (simp add: jsSort_def mset_foldl_insertSorted)

lemma set_jsSort [simp]: "set (jsSort cmp xs) = set xs"
  by (metis mset_jsSort set_mset_mset)

lemma sorted_insertSorted:
  assumes "consistent_on S cmp" "x \<in> S" "set ys \<subseteq> S"
    and "sorted_wrt (\<lambda>a b. cmp a b \<le> 0) ys"
  shows "sorted_wrt (\<lambda>a b. cmp a b \<le> 0) (insertSorted cmp x ys)"
  using assms(3,4)
proof (induction ys)
  case Nil
  then show ?case by simp
next
  case (Cons y ys)
  show ?case
  proof (cases "cmp y x > 0")
    case True
    have xy: "cmp x y \<le> 0"
      using assms(1,2) Cons.prems(1) True by (auto simp: consistent_on_def)
    have "cmp x z \<le> 0" if "z \<in> set ys" for z
    proof -
      have "cmp y z \<le> 0" using Cons.prems(2) that by simp
      with xy show ?thesis
        using assms(1,2) Cons.prems(1) that unfolding consistent_on_def
        by (meson list.set_intros(1) list.set_intros(2) subsetD)
    qed
    with xy True Cons.prems(2) show ?thesis by auto
  next
    case False
    then have "cmp y x \<le> 0" by simp
    with False Cons show ?thesis by auto
  qed
qed

lemma sorted_foldl_insertSorted:
  assumes "consistent_on S cmp"
  shows "set acc \<subseteq> S \<Longrightarrow> set xs \<subseteq> S \<Longrightarrow> sorted_wrt (\<lambda>a b. cmp a b \<le> 0) acc \<Longrightarrow>
         sorted_wrt (\<lambda>a b. cmp a b \<le> 0) (foldl (\<lambda>sorted x. insertSorted cmp x sorted) acc xs)"
proof (induction xs arbitrary: acc)
  case Nil
  then show ?case by simp
next
  case (Cons x xs)
  have "sorted_wrt (\<lambda>a b. cmp a b \<le> 0) (insertSorted cmp x acc)"
    using sorted_insertSorted [OF assms, of x acc] Cons.prems by simp
  moreover have "set (insertSorted cmp x acc) \<subseteq> S" using Cons.prems by simp
  ultimately show ?case using Cons.IH [of "insertSorted cmp x acc"] Cons.prems by simp
qed

lemma sorted_jsSort:
  "consistent_on (set xs) cmp \<Longrightarrow> sorted_wrt (\<lambda>a b. cmp a b \<le> 0) (jsSort cmp xs)"
  unfolding jsSort_def by (rule sorted_foldl_insertSorted [where S = "set xs"]) simp_all

subsection \<open>Risk scorer\<close>

text \<open>
  C4: the risk category of a score follows the exact thresholds: at least 85 is low, at
  least 70 is medium-low, at least 55 is medium, at least 40 is medium-high, anything
  below is high; a score of exactly 85 is low and 84 is medium-low.
\<close>

theorem getRiskCategory_thresholds:
  "(getRiskCategory s = Low \<longleftrightarrow> 85 \<le> s)
   \<and> (getRiskCategory s = MediumLow \<longleftrightarrow> 70 \<le> s \<and> s < 85)
   \<and> (getRiskCategory s = Medium \<longleftrightarrow> 55 \<le> s \<and> s < 70)
   \<and> (getRiskCategory s = MediumHigh \<longleftrightarrow> 40 \<le> s \<and> s < 55)
   \<and> (getRiskCategory s = High \<longleftrightarrow> s < 40)
   \<and> getRiskCategory 85 = Low
   \<and> getRiskCategory 84 = MediumLow"
  by (simp add: getRiskCategory_def)

text \<open>
  filterByRiskTolerance returns, sorted by descending risk score, the enriched vaults whose
  score reaches the minimum of the tolerance. The minimum is the table's for the first
  four tolerances and 55 for \<open>high\<close> and for any unknown tolerance.
\<close>

lemma consistent_on_key:
  "consistent_on S (\<lambda>a b. key b - key a)"
  by (auto simp: consistent_on_def)

lemma filterByRiskTolerance_result:
  "mset (filterByRiskTolerance cached vaults maxRiskLevel)
     = mset (filter (\<lambda>vault. num (risk_score vault) \<ge> orDefault (riskLevelScores maxRiskLevel) 55)
               (map (enrich cached) vaults))
   \<and> sorted_wrt (\<lambda>a b. num (risk_score a) \<ge> num (risk_score b))
        (filterByRiskTolerance cached vaults maxRiskLevel)"
proof -
  let ?kept = "filter (\<lambda>vault. num (risk_score vault) \<ge> orDefault (riskLevelScores maxRiskLevel) 55)
               (map (enrich cached) vaults)"
  have "sorted_wrt (\<lambda>a b. num (risk_score b) - num (risk_score a) \<le> 0)
          (jsSort (\<lambda>a b. num (risk_score b) - num (risk_score a)) ?kept)"
    by (rule sorted_jsSort) (rule consistent_on_key [where key = "\<lambda>v. num (risk_score v)"])
  then show ?thesis
    by (simp add: filterByRiskTolerance_def Let_def)
qed

lemma minimum_scores:
  "orDefault (riskLevelScores ''low'') 55 = 85"
  "orDefault (riskLevelScores ''medium-low'') 55 = 70"
  "orDefault (riskLevelScores ''medium'') 55 = 55"
  "orDefault (riskLevelScores ''medium-high'') 55 = 40"
  "orDefault (riskLevelScores ''high'') 55 = 55"
  by (simp_all add: riskLevelScores_def orDefault_def)

lemma risky_keys:
  "replaceWhitespace (toLowerCase ''Aerodrome Slipstream'') = ''aerodrome-slipstream''"
  "toLowerCase ''bsc'' = ''bsc''"
  by code_simp+

lemma risky_score: "calculateRiskScore (\<lambda>_. None) risky_vault =
  \<lparr>riskScore = 39,
   breakdown = Some \<lparr>bd_protocol = 45, bd_tvl = 30, bd_apy = 10, bd_chain = 70, bd_source = 85\<rparr>,
   riskCategory = High\<rparr>"
  by (simp add: calculateRiskScore_def risky_vault_def risky_keys getProtocolScore_def
        getTVLScore_def getAPYScore_def getChainScore_def getSourceScore_def sourceScores_def
        protocolRiskScores_def chainRiskMultipliers_def orDefault_def jsRound_def Let_def
        getRiskCategory_def)

text \<open>
  C10 fails on the code for the tolerance \<open>high\<close>: the table maps it to the minimum score
  0, but \<^verbatim>\<open>riskLevelScores[maxRiskLevel] || 55\<close> replaces the falsy 0 by 55. A vault whose
  computed risk score is 39 (at least 0) is dropped.
\<close>

theorem filterByRiskTolerance_high_drops:
  "riskLevelScores ''high'' = Some 0
   \<and> riskScore (calculateRiskScore (\<lambda>_. None) risky_vault) = 39
   \<and> filterByRiskTolerance (\<lambda>_. None) [risky_vault] ''high'' = []"
  by (simp add: filterByRiskTolerance_def enrich_def risky_score num_def riskLevelScores_def
        orDefault_def jsSort_def)

subsection \<open>Validation score\<close>

text \<open>
  C5: the validation score is the weighted sum of the checks (real address 30, asset
  match 25, name similarity 20, TVL plausibility 15, freshness bonus 10 when fresh and 5
  when recent), and turning any single check from failed to passed, the others held
  fixed, never lowers it; neither does a fresher freshness bucket.
\<close>

theorem calculateValidationScore_weighted_monotone:
  "calculateValidationScore v =
     weight 30 (has_real_address v) + weight 25 (asset_match v)
     + weight 20 (name_similarity v) + weight 15 (tvl_reasonable v)
     + freshness_bonus (data_freshness v)
   \<and> calculateValidationScore (v\<lparr>has_real_address := False\<rparr>)
       \<le> calculateValidationScore (v\<lparr>has_real_address := True\<rparr>)
   \<and> calculateValidationScore (v\<lparr>asset_match := False\<rparr>)
       \<le> calculateValidationScore (v\<lparr>asset_match := True\<rparr>)
   \<and> calculateValidationScore (v\<lparr>name_similarity := False\<rparr>)
       \<le> calculateValidationScore (v\<lparr>name_similarity := True\<rparr>)
   \<and> calculateValidationScore (v\<lparr>tvl_reasonable := False\<rparr>)
       \<le> calculateValidationScore (v\<lparr>tvl_reasonable := True\<rparr>)
   \<and> calculateValidationScore (v\<lparr>data_freshness := Stale\<rparr>)
       \<le> calculateValidationScore (v\<lparr>data_freshness := Recent\<rparr>)
   \<and> calculateValidationScore (v\<lparr>data_freshness := Unknown\<rparr>)
       \<le> calculateValidationScore (v\<lparr>data_freshness := Recent\<rparr>)
   \<and> calculateValidationScore (v\<lparr>data_freshness := Recent\<rparr>)
       \<le> calculateValidationScore (v\<lparr>data_freshness := Fresh\<rparr>)"
  by (cases "data_freshness v")
     (simp_all add: calculateValidationScore_def weight_def freshness_bonus_def Let_def)

subsection \<open>Best-vault ranking\<close>

text \<open>
  The comparator of getBestVault is the two-tier rule: it is negative, so that \<open>a\<close> is
  sorted first, exactly when \<open>a\<close> is to be ranked ahead of \<open>b\<close>.
\<close>

lemma bestVaultCompare_antisym: "bestVaultCompare a b = - bestVaultCompare b a"
  by (simp add: bestVaultCompare_def Let_def abs_minus_commute)

lemma confidence_orDefault: "orDefault (validation_score v) 0 = confidence v"
  by (simp add: orDefault_def confidence_def split: option.splits)

lemma bestVaultCompare_ranks_ahead:
  "bestVaultCompare (withRiskAdjustedAPY a) (withRiskAdjustedAPY b) < 0 \<longleftrightarrow> spec_ranks_ahead a b"
  by (simp add: bestVaultCompare_def Let_def confidence_orDefault spec_ranks_ahead_def
        withRiskAdjustedAPY_def num_def risk_adjusted_yield_def getRiskAdjustedAPY_def confidence_def)

text \<open>
  getBestVault never applies it: \<^verbatim>\<open>safeVaults\<close> is the Promise of the un-awaited
  filterByRiskTolerance, and \<^verbatim>\<open>safeVaults.map\<close> throws before the sort, whatever the input
  and whatever the engine's sort.
\<close>

lemma getBestVault_TypeError:
  "getBestVault engineSort cached saveVaultData now vaults asset riskLevel chain'
     = Inl (TypeError ''safeVaults.map is not a function'')"
  by (simp add: getBestVault_def Let_def)

lemma usdc_upper: "toUpperCase ''USDC'' = ''USDC''"
  by code_simp

lemma validated_keys:
  "replaceWhitespace (toLowerCase ''compound-v3'') = ''compound-v3''"
  "replaceWhitespace (toLowerCase ''aave-v3'') = ''aave-v3''"
  "toLowerCase ''base'' = ''base''"
  "toLowerCase ''ethereum'' = ''ethereum''"
  by code_simp+

lemma trusted_score: "riskScore (calculateRiskScore (\<lambda>_. None) trusted_vault) = 94"
  by (simp add: calculateRiskScore_def trusted_vault_def validated_keys getProtocolScore_def
        getTVLScore_def getAPYScore_def getChainScore_def getSourceScore_def sourceScores_def
        protocolRiskScores_def chainRiskMultipliers_def orDefault_def jsRound_def Let_def)

lemma yield_score: "riskScore (calculateRiskScore (\<lambda>_. None) yield_vault) = 93"
  by (simp add: calculateRiskScore_def yield_vault_def validated_keys getProtocolScore_def
        getTVLScore_def getAPYScore_def getChainScore_def getSourceScore_def sourceScores_def
        protocolRiskScores_def chainRiskMultipliers_def orDefault_def jsRound_def Let_def)

lemma validated_asset:
  "filterByAssetAndChain [yield_vault, trusted_vault] ''USDC'' None = [yield_vault, trusted_vault]"
  by (simp add: filterByAssetAndChain_def usdc_upper)
     (simp add: yield_vault_def trusted_vault_def usdc_upper)

lemma enrich_fields [simp]:
  "validation_score (enrich cached v) = validation_score v"
  "apy (enrich cached v) = apy v"
  "risk_score (enrich cached v) = Some (riskScore (calculateRiskScore cached v))"
  by (simp_all add: enrich_def Let_def)

lemma validated_survive:
  "filterByRiskTolerance (\<lambda>_. None) [yield_vault, trusted_vault] ''medium''
     = [enrich (\<lambda>_. None) trusted_vault, enrich (\<lambda>_. None) yield_vault]"
  by (simp add: filterByRiskTolerance_def riskLevelScores_def orDefault_def num_def jsSort_def
        trusted_score yield_score Let_def)

text \<open>
  C1 fails on the code. In the example of the specification two USDC vaults survive the
  risk filter of tolerance \<open>medium\<close>: one of confidence 90 (risk score 94, APY 2) and one of
  confidence 65 (risk score 93, APY 9). The confidences differ by 25, and the comparator is
  negative for the pair (90, 65), so the sort would rank the vault of confidence 90 first
  although its risk-adjusted yield is the lower one. getBestVault does not get that far: it returns the
  TypeError of \<^verbatim>\<open>safeVaults.map\<close> and ranks nothing.
\<close>

theorem getBestVault_never_ranks:
  "map validation_score
     (filterByRiskTolerance (\<lambda>_. None)
        (filterByAssetAndChain [yield_vault, trusted_vault] ''USDC'' None) ''medium'')
     = [Some 90, Some 65]
   \<and> bestVaultCompare (withRiskAdjustedAPY (enrich (\<lambda>_. None) trusted_vault))
                       (withRiskAdjustedAPY (enrich (\<lambda>_. None) yield_vault)) = - 25
   \<and> num (risk_adjusted_apy (withRiskAdjustedAPY (enrich (\<lambda>_. None) trusted_vault)))
       < num (risk_adjusted_apy (withRiskAdjustedAPY (enrich (\<lambda>_. None) yield_vault)))
   \<and> getBestVault engineSort (\<lambda>_. None) saveVaultData now [yield_vault, trusted_vault]
         ''USDC'' ''medium'' None
       = Inl (TypeError ''safeVaults.map is not a function'')"
proof (intro conjI)
  show "map validation_score
     (filterByRiskTolerance (\<lambda>_. None)
        (filterByAssetAndChain [yield_vault, trusted_vault] ''USDC'' None) ''medium'')
     = [Some 90, Some 65]"
    by (simp add: validated_asset validated_survive) (simp add: trusted_vault_def yield_vault_def)
  show "bestVaultCompare (withRiskAdjustedAPY (enrich (\<lambda>_. None) trusted_vault))
                       (withRiskAdjustedAPY (enrich (\<lambda>_. None) yield_vault)) = - 25"
    by (simp add: bestVaultCompare_def withRiskAdjustedAPY_def orDefault_def Let_def)
       (simp add: trusted_vault_def yield_vault_def)
  show "num (risk_adjusted_apy (withRiskAdjustedAPY (enrich (\<lambda>_. None) trusted_vault)))
       < num (risk_adjusted_apy (withRiskAdjustedAPY (enrich (\<lambda>_. None) yield_vault)))"
    by (simp add: withRiskAdjustedAPY_def getRiskAdjustedAPY_def num_def trusted_score
          yield_score Let_def)
       (simp add: trusted_vault_def yield_vault_def)
  show "getBestVault engineSort (\<lambda>_. None) saveVaultData now [yield_vault, trusted_vault]
         ''USDC'' ''medium'' None
       = Inl (TypeError ''safeVaults.map is not a function'')"
    by (rule getBestVault_TypeError)
qed

text \<open>
  A remark on the rule itself. It is not transitive: with confidences 0, 15, 30 and
  risk-adjusted yields 3, 2, 1 each neighbour pair is decided by yield and the outer pair
  by confidence, which makes a cycle. No order of three such candidates, and so no sort
  whatever its algorithm, ranks every pair of them by the rule. With two candidates, as
  above, there is no such conflict.
\<close>

lemma ranks_ahead_cand:
  "spec_ranks_ahead (cand c1 y1) (cand c2 y2) = (if \<bar>c1 - c2\<bar> > 20 then c1 > c2 else y1 > y2)"
  by (simp add: spec_ranks_ahead_def cand_def confidence_def risk_adjusted_yield_def num_def)

lemma ranks_ahead_irrefl: "\<not> spec_ranks_ahead a a"
  by (simp add: spec_ranks_ahead_def)

lemma ahead_index:
  assumes "spec_respects_rule ys" "i < length ys" "j < length ys" "spec_ranks_ahead (ys ! i) (ys ! j)"
  shows "i < j"
proof (rule ccontr)
  assume "\<not> i < j"
  then consider "i = j" | "j < i" by linarith
  then show False
  proof cases
    case 1
    with assms(4) show False by (simp add: ranks_ahead_irrefl)
  next
    case 2
    with assms(1,2) have "\<not> spec_ranks_ahead (ys ! i) (ys ! j)"
      unfolding spec_respects_rule_def by (simp add: sorted_wrt_iff_nth_less)
    with assms(4) show False by simp
  qed
qed

lemma cycle_no_order:
  assumes "a \<in> set ys" "b \<in> set ys" "c \<in> set ys"
    and "spec_ranks_ahead a b" "spec_ranks_ahead b c" "spec_ranks_ahead c a"
  shows "\<not> spec_respects_rule ys"
proof
  assume r: "spec_respects_rule ys"
  from assms(1-3) obtain i j k where
    i: "i < length ys" "ys ! i = a" and j: "j < length ys" "ys ! j = b"
    and k: "k < length ys" "ys ! k = c"
    by (meson in_set_conv_nth)
  have "i < j" using ahead_index [OF r i(1) j(1)] assms(4) i j by simp
  moreover have "j < k" using ahead_index [OF r j(1) k(1)] assms(5) j k by simp
  moreover have "k < i" using ahead_index [OF r k(1) i(1)] assms(6) i k by simp
  ultimately show False by linarith
qed

lemma two_tier_rule_cyclic:
  assumes "set ys = {cand 0 3, cand 15 2, cand 30 1}"
  shows "\<not> spec_respects_rule ys"
proof -
  from assms have "cand 0 3 \<in> set ys" "cand 15 2 \<in> set ys" "cand 30 1 \<in> set ys"
    by simp_all
  moreover have "spec_ranks_ahead (cand 0 3) (cand 15 2)"
    "spec_ranks_ahead (cand 15 2) (cand 30 1)" "spec_ranks_ahead (cand 30 1) (cand 0 3)"
    by (simp_all add: ranks_ahead_cand)
  ultimately show ?thesis by (rule cycle_no_order)
qed

subsection \<open>Request handlers\<close>










text \<open>
  What the two sides do with the limits 0, 51 and 50: the contract reverts on the first
  two and sends the third; the server's cut keeps no vault for 0, up to 51 for 51 and at
  most 100 for any larger limit.
\<close>

lemma requestProtocolList_examples:
  "requestProtocolList 1 1 ''USDC'' 0 0 = Inl ''Results must be 1-50''"
  "requestProtocolList 1 1 ''USDC'' 0 51 = Inl ''Results must be 1-50''"
  "requestProtocolList 1 1 ''USDC'' 0 50
     = Inr [(''asset'', Str ''USDC''), (''request_type'', Str ''top_vaults''), (''limit'', Uint 50)]"
  "requestProtocolList 0 1 ''USDC'' 0 51 = Inl ''Insufficient LINK balance''"
  by (simp_all add: requestProtocolList_def)

lemma server_cut:
  "sliceFromStart (jsMin (Some (int k)) 100) xs = take (min k 100) xs"
  by (simp add: sliceFromStart_def jsMin_def min_def)

lemma risky_asset: "filterByAssetAndChain [risky_vault] ''USDC'' None = [risky_vault]"
  by (simp add: filterByAssetAndChain_def usdc_upper) (simp add: risky_vault_def usdc_upper)

lemma risky_filtered_low: "filterByRiskTolerance (\<lambda>_. None) [risky_vault] ''low'' = []"
  by (simp add: filterByRiskTolerance_def enrich_def risky_score num_def riskLevelScores_def
        orDefault_def jsSort_def)

text \<open>
  C7 fails on the adapter: with a candidate set emptied by the risk filter (the only vault
  scores 39, the tolerance \<open>low\<close> needs 85), getBestVault tests \<^verbatim>\<open>.length\<close> of the
  un-awaited Promise, skips its ``No vaults found'' branch and raises the TypeError of
  \<^verbatim>\<open>safeVaults.map\<close>, which the route hands to the caller as a 500. The API server's
  route, which awaits the same call, answers 404 ``No vaults found matching criteria''.
\<close>

theorem getBestVault_empty_candidates:
  "filterByRiskTolerance (\<lambda>_. None) (filterByAssetAndChain [risky_vault] ''USDC'' None) ''low'' = []
   \<and> getBestVault engineSort (\<lambda>_. None) (\<lambda>_. None) 0 [risky_vault] ''USDC'' ''low'' None
       = Inl (TypeError ''safeVaults.map is not a function'')
   \<and> bestVaultRoute engineSort (\<lambda>_. None) (\<lambda>_. None) 0 [risky_vault] ''USDC'' (Some ''low'')
       = Response 500 (ErrorBody ''safeVaults.map is not a function'')
   \<and> apiBestVaultRoute (\<lambda>_. None) [risky_vault] ''USDC'' ''low'' None 0
       = Response 404 (NoVaultsBody ''No vaults found matching criteria'')"
proof (intro conjI)
  show "filterByRiskTolerance (\<lambda>_. None) (filterByAssetAndChain [risky_vault] ''USDC'' None) ''low'' = []"
    by (simp add: risky_asset risky_filtered_low)
  show "getBestVault engineSort (\<lambda>_. None) (\<lambda>_. None) 0 [risky_vault] ''USDC'' ''low'' None
       = Inl (TypeError ''safeVaults.map is not a function'')"
    by (rule getBestVault_TypeError)
  show "bestVaultRoute engineSort (\<lambda>_. None) (\<lambda>_. None) 0 [risky_vault] ''USDC'' (Some ''low'')
       = Response 500 (ErrorBody ''safeVaults.map is not a function'')"
    by (simp add: bestVaultRoute_def getBestVault_TypeError)
  have "filter (\<lambda>vault. toUpperCase (asset_symbol vault) = toUpperCase ''USDC'' \<and> 0 \<le> tvl_usd vault)
          [risky_vault] = [risky_vault]"
    by (simp add: usdc_upper) (simp add: risky_vault_def usdc_upper)
  then show "apiBestVaultRoute (\<lambda>_. None) [risky_vault] ''USDC'' ''low'' None 0
       = Response 404 (NoVaultsBody ''No vaults found matching criteria'')"
    by (simp add: apiBestVaultRoute_def risky_filtered_low Let_def)
qed

subsection \<open>Yield estimation for opaque identifiers\<close>

text \<open>
  The guarded path. For an address that is not shaped like a contract address
  getVaultDataWithCalculatedAPY makes no RPC read and returns the estimate of
  getProtocolEstimationForUUID: for every protocol string a record tagged
  \<^verbatim>\<open>is_estimation\<close>, with the method and the confidence of the protocol family (at most 0.6)
  and an APY inside the band of the family; for a \<^verbatim>\<open>null\<close> protocol it returns \<^verbatim>\<open>null\<close>.
\<close>

lemma getVaultDataWithCalculatedAPY_opaque:
  "\<not> isEthereumAddress vaultAddress \<Longrightarrow>
   getVaultDataWithCalculatedAPY readVault calculateProtocolAPY random now
       vaultAddress chain' protocol' marketId
     = ([], map_option Estimated
              (getProtocolEstimationForUUID random now vaultAddress chain' protocol'))"
  by (simp add: getVaultDataWithCalculatedAPY_def)

lemma estimation_exists:
  "\<exists>e. getProtocolEstimationForUUID random now uuid chain' (Some p) = Some e"
  by (simp add: getProtocolEstimationForUUID_def Let_def case_prod_beta)

lemma estimation_null_protocol:
  "getProtocolEstimationForUUID random now uuid chain' None = None"
  by (simp add: getProtocolEstimationForUUID_def)

lemma estimation_confidence:
  "getProtocolEstimationForUUID random now uuid chain' (Some p) = Some e \<Longrightarrow>
   is_estimation e \<and> confidence_score e \<le> 0.6 \<and> est_vault_address e = uuid
   \<and> protocol_category e = toLowerCase p
   \<and> (apy_calculation_method e, confidence_score e)
       \<in> {(''aave_typical_range'', 0.6), (''compound_typical_range'', 0.6),
          (''morpho_typical_range'', 0.5), (''yearn_typical_range'', 0.4),
          (''protocol_estimation'', 0.3)}"
  by (auto simp: getProtocolEstimationForUUID_def Let_def split: if_splits)

lemma estimation_band:
  assumes "getProtocolEstimationForUUID random now uuid chain' (Some p) = Some e"
    and "0 \<le> random" "random < 1"
  shows "0.015 \<le> calculated_apy e \<and> calculated_apy e < 0.08"
  using assms by (auto simp: getProtocolEstimationForUUID_def Let_def split: if_splits)

text \<open>
  The unguarded path. With an address that fails the shape test getVaultOnChainData
  returns \<^verbatim>\<open>null\<close> without a read, but on a chain with a provider calculateHistoricalAPY
  requests the block number.
\<close>

lemma getVaultOnChainData_opaque:
  "\<not> isEthereumAddress vaultAddress \<Longrightarrow>
   getVaultOnChainData readVault vaultAddress chain' protocol' = ([], None)"
  by (auto simp: getVaultOnChainData_def isEthereumAddress_def)

lemma calculateHistoricalAPY_reads:
  "chain' \<in> set providers \<Longrightarrow>
   GetBlockNumber chain'
     \<in> set (fst (calculateHistoricalAPY getBlockNumber getSharePrice vaultAddress chain'
                   protocol' daysBack))"
  by (simp add: calculateHistoricalAPY_def Let_def split: option.split)

lemma getComprehensiveVaultAnalysis_opaque:
  assumes "\<not> isEthereumAddress vaultAddress" and "chain' \<in> set providers"
  shows "GetBlockNumber chain'
           \<in> set (fst (getComprehensiveVaultAnalysis readVault calculateProtocolAPY
                         getBlockNumber getSharePrice now vaultAddress chain' protocol' marketId))"
    and "snd (getComprehensiveVaultAnalysis readVault calculateProtocolAPY
                getBlockNumber getSharePrice now vaultAddress chain' protocol' marketId) = None"
  using calculateHistoricalAPY_reads [OF assms(2), of getBlockNumber getSharePrice vaultAddress
          protocol' 7]
  by (simp_all add: getComprehensiveVaultAnalysis_def Let_def
        getVaultOnChainData_opaque [OF assms(1)])

lemma pool_id_opaque: "\<not> isEthereumAddress ''747c1d2a-c668-4682-b9f9-296708a3dd90''"
  by (simp add: isEthereumAddress_def)

text \<open>
  C6 fails on the code. For the DefiLlama pool id
  \<^verbatim>\<open>747c1d2a-c668-4682-b9f9-296708a3dd90\<close> on Base, which is not shaped like a contract
  address, getVaultDataWithCalculatedAPY makes no RPC read, as claimed. The comprehensive
  analysis of the same collector does not test the shape of the address: it requests the
  block number from the chain, whatever its collaborators answer, and it returns \<^verbatim>\<open>null\<close>
  instead of an estimate.
\<close>

theorem getComprehensiveVaultAnalysis_reads_chain:
  "\<not> isEthereumAddress ''747c1d2a-c668-4682-b9f9-296708a3dd90''
   \<and> fst (getVaultDataWithCalculatedAPY readVault calculateProtocolAPY random now
            ''747c1d2a-c668-4682-b9f9-296708a3dd90'' ''base'' (Some ''aave-v3'') marketId) = []
   \<and> GetBlockNumber ''base''
       \<in> set (fst (getComprehensiveVaultAnalysis readVault calculateProtocolAPY getBlockNumber
                     getSharePrice now ''747c1d2a-c668-4682-b9f9-296708a3dd90'' ''base''
                     (Some ''aave-v3'') marketId))
   \<and> snd (getComprehensiveVaultAnalysis readVault calculateProtocolAPY getBlockNumber
            getSharePrice now ''747c1d2a-c668-4682-b9f9-296708a3dd90'' ''base''
            (Some ''aave-v3'') marketId) = None"
proof (intro conjI)
  have base: "''base'' \<in> set providers"
    by (simp add: providers_def)
  show "\<not> isEthereumAddress ''747c1d2a-c668-4682-b9f9-296708a3dd90''"
    by (rule pool_id_opaque)
  show "fst (getVaultDataWithCalculatedAPY readVault calculateProtocolAPY random now
            ''747c1d2a-c668-4682-b9f9-296708a3dd90'' ''base'' (Some ''aave-v3'') marketId) = []"
    by (simp add: getVaultDataWithCalculatedAPY_opaque [OF pool_id_opaque])
  show "GetBlockNumber ''base''
       \<in> set (fst (getComprehensiveVaultAnalysis readVault calculateProtocolAPY getBlockNumber
                     getSharePrice now ''747c1d2a-c668-4682-b9f9-296708a3dd90'' ''base''
                     (Some ''aave-v3'') marketId))"
    by (rule getComprehensiveVaultAnalysis_opaque(1) [OF pool_id_opaque base])
  show "snd (getComprehensiveVaultAnalysis readVault calculateProtocolAPY getBlockNumber
            getSharePrice now ''747c1d2a-c668-4682-b9f9-296708a3dd90'' ''base''
            (Some ''aave-v3'') marketId) = None"
    by (rule getComprehensiveVaultAnalysis_opaque(2) [OF pool_id_opaque base])
qed

text \<open>
  On an address of the right shape the comprehensive analysis recommends the result of
  the highest confidence: here the protocol calculation fails and both historical
  calculations succeed.
\<close>

lemma numberToString_days: "numberToString 7 = ''7''" "numberToString 30 = ''30''"
  by code_simp+

lemma getComprehensiveVaultAnalysis_example:
  "snd (getComprehensiveVaultAnalysis
          (\<lambda>a c p. ([ContractRead c a], Some ()))
          (\<lambda>a p c m. ([ContractRead c a], Inr None))
          (\<lambda>c. Some 1000000)
          (\<lambda>a c block. ([ContractRead c a], Some (if block = 1000000 then 1.03125 else 1)))
          0 ''0xb125E6687d4313864e53df431d5425969c15Eb2F'' ''base'' (Some ''compound-v3'')
          (None :: unit option))
     = Some \<lparr>basicData = (),
             analysis_calculated_apy = Some (0.03125 * (365 / 7)),
             analysis_confidence_score = 0.8,
             calculation_methods = [(''historical_7d'', 0.03125 * (365 / 7), 0.8),
                                    (''historical_30d'', 0.03125 * (365 / 30), 0.8)],
             protocol_apy = None,
             weekly_apy = Some \<lparr>data_calculated_apy = 0.03125 * (365 / 7),
                                 data_method = ''historical_7d'', data_confidence_score = 0.8\<rparr>,
             monthly_apy = Some \<lparr>data_calculated_apy = 0.03125 * (365 / 30),
                                  data_method = ''historical_30d'', data_confidence_score = 0.8\<rparr>,
             comprehensive_analysis = True, analysis_timestamp = 0\<rparr>"
proof -
  have base: "''base'' \<in> set providers" "blocksPerYear ''base'' = Some 15768000"
    by (simp_all add: providers_def blocksPerYear_def)
  have addr: "startsWith ''0xb125E6687d4313864e53df431d5425969c15Eb2F'' ''0x''"
    by simp
  show ?thesis
    by (simp add: getComprehensiveVaultAnalysis_def getVaultOnChainData_def getProtocolAPY_def
          calculateHistoricalAPY_def addMethod_def base addr numberToString_days Let_def)
qed

subsection \<open>Request deduplication\<close>

lemma getVaultData_suspended [simp]:
  "getVaultData (cm\<lparr>suspended := q\<rparr>) key = getVaultData cm key"
  by (simp add: getVaultData_def split: option.splits)

lemma calls_suspend:
  assumes "requestCache cm (dedupKey key) = None"
  shows "fold step (map (\<lambda>caller. Call caller key ttl) callers) cm
         = cm\<lparr>suspended := suspended cm
                 @ map (\<lambda>caller. (caller, key, ttl, getVaultData cm key)) callers\<rparr>"
  using assms
proof (induction callers arbitrary: cm)
  case Nil
  then show ?case by simp
next
  case (Cons c cs)
  have s: "step (Call c key ttl) cm
           = cm\<lparr>suspended := suspended cm @ [(c, key, ttl, getVaultData cm key)]\<rparr>"
    using Cons.prems by (simp add: Let_def)
  have "requestCache (step (Call c key ttl) cm) (dedupKey key) = None"
    using Cons.prems by (simp add: s del: step.simps)
  from Cons.IH [OF this] show ?case
    by (simp add: s del: step.simps)
qed

lemma resumes_invoke_upstream:
  assumes "list_all (\<lambda>waiting. snd (snd (snd waiting)) = None) (suspended cm)"
    and "n \<le> length (suspended cm)"
  shows "upstream (fold step (replicate n Resume) cm)
         = upstream cm @ map (\<lambda>waiting. fst (snd waiting)) (take n (suspended cm))"
  using assms
proof (induction n arbitrary: cm)
  case 0
  then show ?case by simp
next
  case (Suc n)
  then obtain caller key ttl rest where q: "suspended cm = (caller, key, ttl, None) # rest"
    by (cases "suspended cm") auto
  let ?cm = "step Resume cm"
  have su: "suspended ?cm = rest" and up: "upstream ?cm = upstream cm @ [key]"
    by (simp_all add: q Let_def)
  have "list_all (\<lambda>waiting. snd (snd (snd waiting)) = None) (suspended ?cm)"
    using Suc.prems(1) by (simp add: su q del: step.simps)
  moreover have "n \<le> length (suspended ?cm)"
    using Suc.prems(2) by (simp add: su q del: step.simps)
  ultimately have "upstream (fold step (replicate n Resume) ?cm)
         = upstream ?cm @ map (\<lambda>waiting. fst (snd waiting)) (take n (suspended ?cm))"
    by (rule Suc.IH)
  then show ?case
    by (simp add: su up q del: step.simps)
qed

lemma sameTick_upstream:
  "upstream (run (sameTick n key ttl) (cold :: 'v cache_manager)) = replicate n key"
proof -
  let ?cm = "(cold :: 'v cache_manager)\<lparr>suspended := map (\<lambda>caller. (caller, key, ttl, None)) [0..<n]\<rparr>"
  have c: "fold step (map (\<lambda>caller. Call caller key ttl) [0..<n]) (cold :: 'v cache_manager) = ?cm"
    using calls_suspend [of cold key ttl "[0..<n]"]
    by (simp add: cold_def getVaultData_def dedupKey_def)
  have "upstream (fold step (replicate n Resume) ?cm)
        = upstream ?cm @ map (\<lambda>waiting. fst (snd waiting)) (take n (suspended ?cm))"
    by (rule resumes_invoke_upstream) (auto simp: list_all_iff)
  then have u: "upstream (fold step (replicate n Resume) ?cm) = replicate n key"
    by (simp add: cold_def map_replicate_const comp_def)
  show ?thesis
    unfolding run_def sameTick_def fold_append comp_def c by (rule u)
qed

lemma settle_removes_in_flight:
  assumes "promise < length (promises cm)" "promises cm ! promise = (key, ttl, Pending)"
  shows "requestCache (step (Settle promise outcome) cm) (dedupKey key) = None"
  using assms
  by (simp add: Let_def setVaultData_def cleanupMemoryCache_def split: sum.splits option.splits)

lemma staggered_calls_share:
  "upstream (run [Call 0 key ttl, Resume, Call 1 key ttl, Resume] cold) = [key]
   \<and> results (run [Call 0 key ttl, Resume, Call 1 key ttl, Resume] cold)
       = [(0, InFlight 0), (1, InFlight 0)]"
  by (simp add: run_def cold_def getVaultData_def Let_def)

text \<open>
  C9 fails on the code: the in-flight table is consulted before, and written after,
  \<^verbatim>\<open>await this.getVaultData(key)\<close>. Calls for one key that are all started before the
  first of them resumes from that await each miss the table and each run the upstream
  computation: 50 such calls on a cold cache make 50 upstream invocations, two calls make two.
\<close>

theorem sameTick_calls_not_deduplicated:
  "length (upstream (run (sameTick 50 ''best_vault:USDC:medium:all:100000'' 300) cold)) = 50
   \<and> upstream (run (sameTick 2 ''best_vault:USDC:medium:all:100000'' 300) cold)
       = [''best_vault:USDC:medium:all:100000'', ''best_vault:USDC:medium:all:100000'']"
  by (simp add: sameTick_upstream numeral_2_eq_2)

end
